theory Spec2Isabelle
  imports Main
begin

section \<open>Strings\<close>

text \<open>
  A string of the answer checker is a \<^typ>\<open>string\<close>: a list of 8-bit characters, read
  as the code units U+0000 to U+00FF (ISO 8859-1). On this range \<open>toLowerCase\<close> maps
  character by character, and the white space of \<open>\s\<close> and of \<open>trim\<close> is
  TAB, LF, VT, FF, CR, SPACE and NBSP.
\<close>

definition is_space :: "char \<Rightarrow> bool" where
  "is_space c = (of_char c \<in> {9, 10, 11, 12, 13, 32, 160 :: nat})"

definition is_digit :: "char \<Rightarrow> bool" where
  "is_digit c = (48 \<le> (of_char c :: nat) \<and> (of_char c :: nat) \<le> 57)"

definition is_az :: "char \<Rightarrow> bool" where
  "is_az c = (97 \<le> (of_char c :: nat) \<and> (of_char c :: nat) \<le> 122)"

definition is_AZ :: "char \<Rightarrow> bool" where
  "is_AZ c = (65 \<le> (of_char c :: nat) \<and> (of_char c :: nat) \<le> 90)"

text \<open>\<open>\w\<close> is \<open>[A-Za-z0-9_]\<close>, with and without the \<open>i\<close> flag.\<close>

definition is_word :: "char \<Rightarrow> bool" where
  "is_word c = (is_AZ c \<or> is_az c \<or> is_digit c \<or> c = CHR ''_'')"

definition toLowerChar :: "char \<Rightarrow> char" where
  "toLowerChar c =
     (let n = of_char c :: nat in
      if (65 \<le> n \<and> n \<le> 90) \<or> (192 \<le> n \<and> n \<le> 222 \<and> n \<noteq> 215)
      then char_of (n + 32) else c)"

definition toLowerCase :: "string \<Rightarrow> string" where
  "toLowerCase s = map toLowerChar s"

definition trim :: "string \<Rightarrow> string" where
  "trim s = rev (dropWhile is_space (rev (dropWhile is_space s)))"

text \<open>\<open>s.split(sep)\<close> for a separator of one character: never the empty list.\<close>

fun split_on :: "char \<Rightarrow> string \<Rightarrow> string list" where
  "split_on sep [] = [[]]"
| "split_on sep (c # s) =
     (if c = sep then [] # split_on sep s
      else (case split_on sep s of
              [] \<Rightarrow> [[c]]
            | w # ws \<Rightarrow> (c # w) # ws))"

section \<open>Regular expressions\<close>

text \<open>
  The patterns of the source, as data, with the backtracking matcher of the language: a
  run lists every way the pattern can match at the head of the input, in the order in
  which the matcher tries them, each with the capture groups set and the input left over.
  A quantifier is greedy; \<open>?\<close> does not accept an empty match of its body.
\<close>

datatype rx =
    Eps
  | Cls "char \<Rightarrow> bool"
  | Many "char \<Rightarrow> bool" nat "nat option"
  | Opt rx
  | Seq rx rx
  | Alt rx rx
  | Grp nat rx
  | Eol

type_synonym caps = "(nat \<times> string) list"

primrec run :: "rx \<Rightarrow> caps \<times> string \<Rightarrow> (caps \<times> string) list" where
  "run Eps st = [st]"
| "run (Cls p) st =
     (case snd st of
        [] \<Rightarrow> []
      | c # t \<Rightarrow> if p c then [(fst st, t)] else [])"
| "run (Many p lo hi) st =
     (let n = length (takeWhile p (snd st));
          m = (case hi of None \<Rightarrow> n | Some h \<Rightarrow> min n h)
      in map (\<lambda>k. (fst st, drop k (snd st))) (rev [lo..<Suc m]))"
| "run (Opt r) st =
     filter (\<lambda>st'. length (snd st') \<noteq> length (snd st)) (run r st) @ [st]"
| "run (Seq a b) st = concat (map (run b) (run a st))"
| "run (Alt a b) st = run a st @ run b st"
| "run (Grp n r) st =
     map (\<lambda>st'. ((n, take (length (snd st) - length (snd st')) (snd st)) # fst st', snd st'))
       (run r st)"
| "run Eol st = (if snd st = [] then [st] else [])"

text \<open>The first match at the head of the input, if any.\<close>

definition first_match :: "rx \<Rightarrow> string \<Rightarrow> (caps \<times> string) option" where
  "first_match r s = (case run r ([], s) of [] \<Rightarrow> None | m # _ \<Rightarrow> Some m)"

text \<open>
  \<open>s.match(/^r/)\<close>: a pattern that starts with \<open>^\<close> (and has no \<open>m\<close> flag) is tried
  at index 0 only. The result is the capture groups, or \<open>None\<close> for \<open>null\<close>.
\<close>

definition rx_match :: "rx \<Rightarrow> string \<Rightarrow> caps option" where
  "rx_match r s = map_option fst (first_match r s)"

text \<open>The text of a group; a group that took no part in the match has none.\<close>

definition grp :: "caps \<Rightarrow> nat \<Rightarrow> string option" where
  "grp cs n = map_of cs n"

text \<open>\<open>$n\<close> in a replacement string: the empty string for a group that took no part.\<close>

definition dollar :: "caps \<Rightarrow> nat \<Rightarrow> string" where
  "dollar cs n = (case grp cs n of None \<Rightarrow> [] | Some g \<Rightarrow> g)"

text \<open>
  \<open>s.replace(/r/g, f)\<close>: from left to right, every match is replaced and the search goes
  on behind it; behind an empty match it goes on one character further.
\<close>

fun replace_all :: "rx \<Rightarrow> (caps \<Rightarrow> string) \<Rightarrow> string \<Rightarrow> string" where
  "replace_all r f [] =
     (case first_match r [] of None \<Rightarrow> [] | Some m \<Rightarrow> f (fst m))"
| "replace_all r f (c # s) =
     (case first_match r (c # s) of
        None \<Rightarrow> c # replace_all r f s
      | Some m \<Rightarrow>
          if length (snd m) < length (c # s) then f (fst m) @ replace_all r f (snd m)
          else f (fst m) @ c # replace_all r f s)"

text \<open>\<open>s.replace(/r/, f)\<close>: the leftmost match only.\<close>

fun replace_first :: "rx \<Rightarrow> (caps \<Rightarrow> string) \<Rightarrow> string \<Rightarrow> string" where
  "replace_first r f [] =
     (case first_match r [] of None \<Rightarrow> [] | Some m \<Rightarrow> f (fst m))"
| "replace_first r f (c # s) =
     (case first_match r (c # s) of
        None \<Rightarrow> c # replace_first r f s
      | Some m \<Rightarrow> f (fst m) @ snd m)"

text \<open>\<open>s.replace(/^r/, f)\<close>: a match at index 0 only.\<close>

definition replace_head :: "rx \<Rightarrow> (caps \<Rightarrow> string) \<Rightarrow> string \<Rightarrow> string" where
  "replace_head r f s =
     (case first_match r s of None \<Rightarrow> s | Some m \<Rightarrow> f (fst m) @ snd m)"

text \<open>Building blocks of the patterns.\<close>

fun seqs :: "rx list \<Rightarrow> rx" where
  "seqs [] = Eps"
| "seqs [r] = r"
| "seqs (r # rs) = Seq r (seqs rs)"

definition chr :: "char \<Rightarrow> rx" where
  "chr c = Cls (\<lambda>x. x = c)"

text \<open>
  A letter under the \<open>i\<close> flag matches itself in either case (the patterns write their
  letters in lower case).
\<close>

definition chri :: "char \<Rightarrow> rx" where
  "chri c = Cls (\<lambda>x. toLowerChar x = c)"

definition lit :: "string \<Rightarrow> rx" where
  "lit s = seqs (map chr s)"

definition liti :: "string \<Rightarrow> rx" where
  "liti s = seqs (map chri s)"

definition many1 :: "(char \<Rightarrow> bool) \<Rightarrow> rx" where
  "many1 p = Many p 1 None"

definition many0 :: "(char \<Rightarrow> bool) \<Rightarrow> rx" where
  "many0 p = Many p 0 None"

section \<open>The tables\<close>

text \<open>
  The tables are read through \<open>Object.values\<close> only, so each is the list of its rows in
  the order of the keys (for \<open>NUMBER_WORDS\<close>, whose keys are numbers, the ascending
  order, which is the order they are written in). The tables of the ordinals and of the
  months are exported, but no function of the checker reads them.
\<close>

definition NUMBER_WORDS :: "string list list" where
  "NUMBER_WORDS =
    [[''zero'', ''o'', ''oh'', ''0''],
     [''one'', ''1''],
     [''two'', ''2''],
     [''three'', ''3''],
     [''four'', ''4''],
     [''five'', ''5''],
     [''six'', ''6''],
     [''seven'', ''7''],
     [''eight'', ''8''],
     [''nine'', ''9''],
     [''ten'', ''10''],
     [''eleven'', ''11''],
     [''twelve'', ''12''],
     [''thirteen'', ''13''],
     [''fourteen'', ''14''],
     [''fifteen'', ''15''],
     [''sixteen'', ''16''],
     [''seventeen'', ''17''],
     [''eighteen'', ''18''],
     [''nineteen'', ''19''],
     [''twenty'', ''20''],
     [''thirty'', ''30''],
     [''forty'', ''40''],
     [''fifty'', ''50''],
     [''sixty'', ''60''],
     [''seventy'', ''70''],
     [''eighty'', ''80''],
     [''ninety'', ''90''],
     [''hundred'', ''one hundred'', ''100''],
     [''thousand'', ''one thousand'', ''1000'', ''1,000''],
     [''million'', ''one million'', ''1000000'', ''1,000,000'']]"

definition MEASUREMENT_VARIATIONS :: "string list list" where
  "MEASUREMENT_VARIATIONS =
    [[''km'', ''kms'', ''kilometre'', ''kilometres'', ''kilometer'', ''kilometers''],
     [''m'', ''metre'', ''metres'', ''meter'', ''meters''],
     [''cm'', ''centimetre'', ''centimetres'', ''centimeter'', ''centimeters''],
     [''mm'', ''millimetre'', ''millimetres'', ''millimeter'', ''millimeters''],
     [''kg'', ''kgs'', ''kilogram'', ''kilograms'', ''kilo'', ''kilos''],
     [''g'', ''gram'', ''grams''],
     [''mg'', ''milligram'', ''milligrams''],
     [''l'', ''litre'', ''litres'', ''liter'', ''liters''],
     [''ml'', ''millilitre'', ''millilitres'', ''milliliter'', ''milliliters''],
     [''ft'', ''foot'', ''feet''],
     [''in'', ''inch'', ''inches''],
     [''mi'', ''mile'', ''miles''],
     [''lb'', ''lbs'', ''pound'', ''pounds''],
     [''oz'', ''ounce'', ''ounces'']]"

text \<open>
  The pound sign is U+00A3 and the yen sign U+00A5. The euro sign, U+20AC, is no
  character of the 8-bit range: no string of this model holds it, so the row of the euro
  keeps its words only and the class of the currency signs its other three members.
\<close>

definition CURRENCY_VARIATIONS :: "string list list" where
  "CURRENCY_VARIATIONS =
    [[''$'', ''dollar'', ''dollars'', ''usd''],
     [[CHR 0xA3], ''pound'', ''pounds'', ''gbp''],
     [''euro'', ''euros'', ''eur''],
     [[CHR 0xA5], ''yen'', ''jpy'']]"

section \<open>Normalisation\<close>

text \<open>
  The two classes of quotes hold the ASCII apostrophe and the ASCII double quote
  (each written twice in the source).
\<close>

definition normalizeString :: "string \<Rightarrow> string" where
  "normalizeString str =
     replace_all (Cls (\<lambda>c. c \<in> set [CHR 0x22, CHR 0x22])) (\<lambda>_. [CHR 0x22])
       (replace_all (Cls (\<lambda>c. c \<in> set [CHR 0x27, CHR 0x27])) (\<lambda>_. [CHR 0x27])
         (replace_all (many1 is_space) (\<lambda>_. '' '')
           (trim (toLowerCase str))))"

definition removeAllSpaces :: "string \<Rightarrow> string" where
  "removeAllSpaces str = replace_all (many1 is_space) (\<lambda>_. []) str"

section \<open>The category matchers\<close>

subsection \<open>Dates\<close>

text \<open>
  The four patterns, in the order of the source:
  \<^verbatim>\<open>/^(\w+)\s+(\d{1,2})(?:st|nd|rd|th)?$/i\<close>,
  \<^verbatim>\<open>/^(\d{1,2})(?:st|nd|rd|th)?\s+(?:of\s+)?(\w+)$/i\<close>,
  \<^verbatim>\<open>/^(\d{1,2})[\/\-](\d{1,2})$/\<close> and
  \<^verbatim>\<open>/^(\d{4})[\/\-](\d{1,2})[\/\-](\d{1,2})$/\<close>.
\<close>

definition ordinal_suffix :: rx where
  "ordinal_suffix = Alt (liti ''st'') (Alt (liti ''nd'') (Alt (liti ''rd'') (liti ''th'')))"

definition date_sep :: "char \<Rightarrow> bool" where
  "date_sep c = (c \<in> set ''/-'')"

definition datePatterns :: "rx list" where
  "datePatterns =
    [seqs [Grp 1 (many1 is_word), many1 is_space, Grp 2 (Many is_digit 1 (Some 2)),
           Opt ordinal_suffix, Eol],
     seqs [Grp 1 (Many is_digit 1 (Some 2)), Opt ordinal_suffix, many1 is_space,
           Opt (Seq (liti ''of'') (many1 is_space)), Grp 2 (many1 is_word), Eol],
     seqs [Grp 1 (Many is_digit 1 (Some 2)), Cls date_sep,
           Grp 2 (Many is_digit 1 (Some 2)), Eol],
     seqs [Grp 1 (Many is_digit 4 (Some 4)), Cls date_sep,
           Grp 2 (Many is_digit 1 (Some 2)), Cls date_sep,
           Grp 3 (Many is_digit 1 (Some 2)), Eol]]"

fun dateLoop :: "rx list \<Rightarrow> string \<Rightarrow> string \<Rightarrow> bool" where
  "dateLoop [] user correct = False"
| "dateLoop (pattern # rest) user correct =
     (if rx_match pattern user \<noteq> None \<and> rx_match pattern correct \<noteq> None then True
      else dateLoop rest user correct)"

definition matchDate :: "string \<Rightarrow> string \<Rightarrow> bool" where
  "matchDate userAnswer correctAnswer =
     dateLoop datePatterns (normalizeString userAnswer) (normalizeString correctAnswer)"

subsection \<open>Times\<close>

text \<open>
  The replacements of \<^verbatim>\<open>/a\.?m\.?/gi\<close> by \<open>am\<close>, of
  \<^verbatim>\<open>/p\.?m\.?/gi\<close> by \<open>pm\<close> and of \<^verbatim>\<open>/o'?clock/gi\<close> by the
  empty string, in this order; before them, white space is removed and
  \<^verbatim>\<open>/[.:]/g\<close> is replaced by the empty string.
\<close>

definition normalizeAmPm :: "string \<Rightarrow> string" where
  "normalizeAmPm s =
     replace_all (seqs [chri (CHR ''o''), Opt (chr (CHR 0x27)), liti ''clock'']) (\<lambda>_. [])
       (replace_all (seqs [chri (CHR ''p''), Opt (chr (CHR ''.'')), chri (CHR ''m''),
                           Opt (chr (CHR ''.''))]) (\<lambda>_. ''pm'')
         (replace_all (seqs [chri (CHR ''a''), Opt (chr (CHR ''.'')), chri (CHR ''m''),
                             Opt (chr (CHR ''.''))]) (\<lambda>_. ''am'') s))"

definition timeKey :: "string \<Rightarrow> string" where
  "timeKey answer =
     replace_all (Cls (\<lambda>c. c \<in> set ''.:'')) (\<lambda>_. [])
       (removeAllSpaces (normalizeString answer))"

definition matchTime :: "string \<Rightarrow> string \<Rightarrow> bool" where
  "matchTime userAnswer correctAnswer =
     (normalizeAmPm (timeKey userAnswer) = normalizeAmPm (timeKey correctAnswer))"

subsection \<open>Numbers\<close>

text \<open>
  After the lower case: \<^verbatim>\<open>/,/g\<close> and then \<^verbatim>\<open>/\s+/g\<close> are replaced by the
  empty string, and the result is trimmed.
\<close>

definition normalizeNum :: "string \<Rightarrow> string" where
  "normalizeNum s =
     trim (replace_all (many1 is_space) (\<lambda>_. [])
       (replace_all (chr (CHR '','')) (\<lambda>_. []) (toLowerCase s)))"

fun numberLoop :: "string list list \<Rightarrow> string \<Rightarrow> string \<Rightarrow> bool" where
  "numberLoop [] user correct = False"
| "numberLoop (words # rest) user correct =
     (if list_ex (\<lambda>w. w = user) words \<and> list_ex (\<lambda>w. w = correct) words then True
      else numberLoop rest user correct)"

definition matchNumber :: "string \<Rightarrow> string \<Rightarrow> bool" where
  "matchNumber userAnswer correctAnswer =
     (let user = normalizeNum userAnswer; correct = normalizeNum correctAnswer
      in if user = correct then True else numberLoop NUMBER_WORDS user correct)"

subsection \<open>Measurements\<close>

text \<open>The pattern is \<^verbatim>\<open>/^([\d,.]+)\s*(\w+)$/\<close>.\<close>

definition is_numch :: "char \<Rightarrow> bool" where
  "is_numch c = (is_digit c \<or> c = CHR '','' \<or> c = CHR ''.'')"

definition measurePattern :: rx where
  "measurePattern = seqs [Grp 1 (many1 is_numch), many0 is_space, Grp 2 (many1 is_word), Eol]"

text \<open>
  A group read out of a match array into a variable. The groups read this way take part
  in every match of their pattern.
\<close>

definition group_text :: "caps \<Rightarrow> nat \<Rightarrow> string" where
  "group_text cs n = dollar cs n"

definition stripCommas :: "string \<Rightarrow> string" where
  "stripCommas s = replace_all (chr (CHR '','')) (\<lambda>_. []) s"

fun measureLoop :: "string list list \<Rightarrow> string \<Rightarrow> string \<Rightarrow> bool \<Rightarrow> bool" where
  "measureLoop [] userUnit correctUnit numsMatch = False"
| "measureLoop (variations # rest) userUnit correctUnit numsMatch =
     (if toLowerCase userUnit \<in> set variations \<and>
         toLowerCase correctUnit \<in> set variations
      then numsMatch
      else measureLoop rest userUnit correctUnit numsMatch)"

definition matchMeasurement :: "string \<Rightarrow> string \<Rightarrow> bool" where
  "matchMeasurement userAnswer correctAnswer =
     (case (rx_match measurePattern (normalizeString userAnswer),
            rx_match measurePattern (normalizeString correctAnswer)) of
        (Some userMatch, Some correctMatch) \<Rightarrow>
          measureLoop MEASUREMENT_VARIATIONS
            (group_text userMatch 2) (group_text correctMatch 2)
            (stripCommas (group_text userMatch 1) = stripCommas (group_text correctMatch 1))
      | _ \<Rightarrow> False)"

subsection \<open>Currency\<close>

text \<open>
  The pattern is \<^verbatim>\<open>/^([S]?)\s*([\d,.]+)\s*([a-z]*)?$/\<close>, where \<open>S\<close> stands
  for the currency signs.
\<close>

definition is_currency_sign :: "char \<Rightarrow> bool" where
  "is_currency_sign c = (c \<in> set [CHR 0xA3, CHR ''$'', CHR 0xA5])"

definition currencyPattern :: rx where
  "currencyPattern =
     seqs [Grp 1 (Opt (Cls is_currency_sign)), many0 is_space, Grp 2 (many1 is_numch),
           many0 is_space, Opt (Grp 3 (many0 is_az)), Eol]"

text \<open>
  \<open>variations.some(v => v === symbol || v === word?.toLowerCase())\<close>, where the word
  is \<open>undefined\<close> when its group took no part in the match.
\<close>

definition hasCurrency :: "string list \<Rightarrow> string \<Rightarrow> string option \<Rightarrow> bool" where
  "hasCurrency variations symbol word =
     list_ex (\<lambda>v. v = symbol \<or> Some v = map_option toLowerCase word) variations"

fun currencyLoop ::
  "string list list \<Rightarrow> string \<Rightarrow> string option \<Rightarrow> string \<Rightarrow> string option \<Rightarrow> bool" where
  "currencyLoop [] userSymbol userWord correctSymbol correctWord = False"
| "currencyLoop (variations # rest) userSymbol userWord correctSymbol correctWord =
     (if hasCurrency variations userSymbol userWord \<and>
         hasCurrency variations correctSymbol correctWord
      then True
      else currencyLoop rest userSymbol userWord correctSymbol correctWord)"

definition matchCurrency :: "string \<Rightarrow> string \<Rightarrow> bool" where
  "matchCurrency userAnswer correctAnswer =
     (case (rx_match currencyPattern (normalizeString userAnswer),
            rx_match currencyPattern (normalizeString correctAnswer)) of
        (Some userMatch, Some correctMatch) \<Rightarrow>
          if stripCommas (group_text userMatch 2) \<noteq> stripCommas (group_text correctMatch 2)
          then False
          else currencyLoop CURRENCY_VARIATIONS
                 (group_text userMatch 1) (grp userMatch 3)
                 (group_text correctMatch 1) (grp correctMatch 3)
      | _ \<Rightarrow> False)"

subsection \<open>Phone numbers\<close>

text \<open>
  After the lower case: \<^verbatim>\<open>/\s+/g\<close> is replaced by the empty string,
  \<^verbatim>\<open>/[oO]/g\<close> by \<open>0\<close>, \<^verbatim>\<open>/double\s*(\d)/gi\<close> by \<open>$1$1\<close> and
  \<^verbatim>\<open>/triple\s*(\d)/gi\<close> by \<open>$1$1$1\<close>, in this order.
\<close>

definition doublePattern :: rx where
  "doublePattern = seqs [liti ''double'', many0 is_space, Grp 1 (Cls is_digit)]"

definition triplePattern :: rx where
  "triplePattern = seqs [liti ''triple'', many0 is_space, Grp 1 (Cls is_digit)]"

definition normalizePhone :: "string \<Rightarrow> string" where
  "normalizePhone s =
     replace_all triplePattern (\<lambda>m. dollar m 1 @ dollar m 1 @ dollar m 1)
       (replace_all doublePattern (\<lambda>m. dollar m 1 @ dollar m 1)
         (replace_all (Cls (\<lambda>c. c \<in> set ''oO'')) (\<lambda>_. ''0'')
           (replace_all (many1 is_space) (\<lambda>_. [])
             (toLowerCase s))))"

definition matchPhoneNumber :: "string \<Rightarrow> string \<Rightarrow> bool" where
  "matchPhoneNumber userAnswer correctAnswer =
     (normalizePhone userAnswer = normalizePhone correctAnswer)"

section \<open>The answer equivalence engine\<close>

text \<open>
  \<open>withoutThe\<close> replaces \<^verbatim>\<open>/^the\s+/\<close> and then \<^verbatim>\<open>/\s+the$/\<close>,
  \<open>withoutArticle\<close> replaces \<^verbatim>\<open>/^(a|an)\s+/\<close>, and \<open>withoutHyphens\<close>
  replaces \<^verbatim>\<open>/-/g\<close> by a space.
\<close>

definition withoutThe :: "string \<Rightarrow> string" where
  "withoutThe s =
     replace_first (seqs [many1 is_space, lit ''the'', Eol]) (\<lambda>_. [])
       (replace_head (seqs [lit ''the'', many1 is_space]) (\<lambda>_. []) s)"

definition withoutArticle :: "string \<Rightarrow> string" where
  "withoutArticle s =
     replace_head (seqs [Grp 1 (Alt (lit ''a'') (lit ''an'')), many1 is_space]) (\<lambda>_. []) s"

definition withoutHyphens :: "string \<Rightarrow> string" where
  "withoutHyphens s = replace_all (chr (CHR ''-'')) (\<lambda>_. '' '') s"

text \<open>The body of the loop over the acceptable answers: does this one return true?\<close>

definition acceptsAnswer :: "string \<Rightarrow> string \<Rightarrow> bool" where
  "acceptsAnswer user correct =
     (if user = correct then True
      else if removeAllSpaces user = removeAllSpaces correct then True
      else if matchTime user correct then True
      else if matchNumber user correct then True
      else if matchMeasurement user correct then True
      else if matchCurrency user correct then True
      else if matchPhoneNumber user correct then True
      else if matchDate user correct then True
      else if withoutThe user = withoutThe correct then True
      else if withoutArticle user = withoutArticle correct then True
      else if user @ ''s'' = correct \<or> user = correct @ ''s'' then True
      else if user @ ''es'' = correct \<or> user = correct @ ''es'' then True
      else if withoutHyphens user = withoutHyphens correct then True
      else if replace_all (chr (CHR '' '')) (\<lambda>_. ''-'') user = correct then True
      else False)"

fun answersLoop :: "string list \<Rightarrow> string \<Rightarrow> bool" where
  "answersLoop [] user = False"
| "answersLoop (correct # rest) user =
     (if acceptsAnswer user correct then True else answersLoop rest user)"

definition checkIeltsAnswer :: "string \<Rightarrow> string \<Rightarrow> bool" where
  "checkIeltsAnswer userAnswer correctAnswers =
     (if userAnswer = [] \<or> correctAnswers = [] then False
      else answersLoop
             (map (\<lambda>a. normalizeString (trim a)) (split_on (CHR ''/'') correctAnswers))
             (normalizeString userAnswer))"

section \<open>The multiple-selection matcher\<close>

text \<open>A \<open>Set\<close> built from an array: its members in the order of their first insertion.\<close>

definition new_Set :: "string list \<Rightarrow> string list" where
  "new_Set xs = foldl (\<lambda>acc x. if x \<in> set acc then acc else acc @ [x]) [] xs"

definition options :: "string \<Rightarrow> string list" where
  "options answer =
     new_Set (filter (\<lambda>opt. opt \<noteq> []) (map normalizeString (split_on (CHR '','') answer)))"

definition checkMultipleChoiceMultiple :: "string \<Rightarrow> string \<Rightarrow> bool" where
  "checkMultipleChoiceMultiple userAnswer correctAnswer =
     (if userAnswer = [] \<or> correctAnswer = [] then False
      else let userOptions = options userAnswer; correctOptions = options correctAnswer
           in if length userOptions \<noteq> length correctOptions then False
              else list_all (\<lambda>opt. opt \<in> set correctOptions) userOptions \<and>
                   list_all (\<lambda>opt. opt \<in> set userOptions) correctOptions)"

section \<open>The dispatcher\<close>

definition checkAnswer :: "string \<Rightarrow> string \<Rightarrow> string option \<Rightarrow> bool" where
  "checkAnswer userAnswer correctAnswer questionType =
     (if questionType = Some ''MULTIPLE_CHOICE_MULTIPLE''
      then checkMultipleChoiceMultiple userAnswer correctAnswer
      else checkIeltsAnswer userAnswer correctAnswer)"

section \<open>Notions of the specification\<close>

text \<open>
  The set of options of a multiple-selection answer, in the words of the specification:
  the tokens between the commas, each normalised, the empty ones discarded, as a set.
\<close>

definition option_set :: "string \<Rightarrow> string set" where
  "option_set answer =
     set (filter (\<lambda>t. t \<noteq> []) (map normalizeString (split_on (CHR '','') answer)))"

text \<open>
  The phone key of an answer, the phone normalisation without the double notation: the
  answer in lower case, its white space removed, every letter o replaced by the digit 0,
  and \<open>triple N\<close> expanded to \<open>NNN\<close>.
\<close>

definition phoneKey :: "string \<Rightarrow> string" where
  "phoneKey s =
     replace_all triplePattern (\<lambda>m. dollar m 1 @ dollar m 1 @ dollar m 1)
       (map (\<lambda>c. if c \<in> set ''oO'' then CHR ''0'' else c)
         (filter (\<lambda>c. \<not> is_space c) (toLowerCase s)))"

text \<open>The second step of \<open>normalizeString\<close>, by name: every run of white space becomes one space.\<close>

definition collapse :: "string \<Rightarrow> string" where
  "collapse s = replace_all (many1 is_space) (\<lambda>_. '' '') s"

section \<open>Characters and the string primitives\<close>

lemma of_char_lt_256: "(of_char c :: nat) < 256"
proof -
  have "(of_char c :: nat) mod 256 = of_char c" by simp
  then show ?thesis by (metis mod_less_divisor zero_less_numeral)
qed

lemma is_space_toLowerChar [simp]: "is_space (toLowerChar c) = is_space c"
  using of_char_lt_256 [of c]
  by (auto simp: is_space_def toLowerChar_def Let_def)

lemma toLowerChar_idem [simp]: "toLowerChar (toLowerChar c) = toLowerChar c"
  using of_char_lt_256 [of c]
  by (auto simp: toLowerChar_def Let_def)

lemma toLowerChar_eq_o: "toLowerChar x = CHR ''o'' \<longleftrightarrow> x = CHR ''o'' \<or> x = CHR ''O''"
proof
  assume a: "toLowerChar x = CHR ''o''"
  show "x = CHR ''o'' \<or> x = CHR ''O''"
  proof (cases "(65 \<le> (of_char x :: nat) \<and> (of_char x :: nat) \<le> 90) \<or>
      (192 \<le> (of_char x :: nat) \<and> (of_char x :: nat) \<le> 222 \<and> (of_char x :: nat) \<noteq> 215)")
    case True
    then have "char_of ((of_char x :: nat) + 32) = CHR ''o''"
      using a by (simp add: toLowerChar_def Let_def)
    then have "(of_char (char_of ((of_char x :: nat) + 32)) :: nat) = of_char (CHR ''o'')" by simp
    then have "((of_char x :: nat) + 32) mod 256 = 111" by simp
    with True of_char_lt_256 [of x] have "(of_char x :: nat) = 79" by auto
    then have "(of_char x :: nat) = of_char (CHR ''O'')" by simp
    then have "x = CHR ''O''" by (simp only: of_char_eq_iff)
    then show ?thesis by simp
  next
    case False
    have "toLowerChar x = x" by (simp only: toLowerChar_def Let_def False if_False)
    then show ?thesis using a by simp
  qed
next
  assume b: "x = CHR ''o'' \<or> x = CHR ''O''"
  have "toLowerChar (CHR ''o'') = CHR ''o''" "toLowerChar (CHR ''O'') = CHR ''o''"
    by code_simp+
  with b show "toLowerChar x = CHR ''o''" by auto
qed

lemma split_on_not_Nil [simp]: "split_on sep s \<noteq> []"
  by (induction s) (auto split: list.splits)

lemma split_on_none: "sep \<notin> set s \<Longrightarrow> split_on sep s = [s]"
  by (induction s) auto

lemma split_on_append: "sep \<notin> set a \<Longrightarrow> split_on sep (a @ sep # r) = a # split_on sep r"
  by (induction a) (auto split: list.splits)

subsection \<open>Trimming and lower case\<close>

lemma dropWhile_toLowerCase:
  "dropWhile is_space (toLowerCase s) = toLowerCase (dropWhile is_space s)"
  by (induction s) (simp_all add: toLowerCase_def)

lemma trim_toLowerCase: "trim (toLowerCase s) = toLowerCase (trim s)"
proof -
  have r: "rev (toLowerCase t) = toLowerCase (rev t)" for t
    by (simp add: toLowerCase_def rev_map)
  show ?thesis
    by (simp add: trim_def dropWhile_toLowerCase r)
qed

lemma toLowerCase_idem [simp]: "toLowerCase (toLowerCase s) = toLowerCase s"
  by (simp add: toLowerCase_def)

lemma dropWhile_id: "s = [] \<or> \<not> p (hd s) \<Longrightarrow> dropWhile p s = s"
  by (cases s) auto

lemma hd_dropWhile_not: "dropWhile p s = [] \<or> \<not> p (hd (dropWhile p s))"
  using hd_dropWhile [of p s] by blast

lemma trim_props:
  "trim s = [] \<or> (\<not> is_space (hd (trim s)) \<and> \<not> is_space (last (trim s)))"
proof (cases "trim s = []")
  case True
  then show ?thesis by simp
next
  case False
  let ?t = "dropWhile is_space s"
  let ?u = "dropWhile is_space (rev ?t)"
  have u: "?u \<noteq> []" using False by (simp add: trim_def)
  then have t: "?t \<noteq> []" by (cases "dropWhile is_space s") simp_all
  have "\<not> is_space (hd ?u)" using u hd_dropWhile by blast
  moreover have "trim s = rev ?u" by (simp add: trim_def)
  ultimately have lst: "\<not> is_space (last (trim s))"
    using u by (simp add: last_rev)
  have "\<not> is_space (hd ?t)" using hd_dropWhile_not [of is_space s] t by blast
  then have "\<not> is_space (last (rev ?t))" using t by (simp add: last_rev)
  moreover have "last ?u = last (rev ?t)"
    using u by (metis last_appendR takeWhile_dropWhile_id)
  ultimately have "\<not> is_space (last ?u)" by simp
  then have "\<not> is_space (hd (trim s))" using u by (simp add: trim_def hd_rev)
  with lst show ?thesis by simp
qed

lemma trim_id:
  "s = [] \<or> (\<not> is_space (hd s) \<and> \<not> is_space (last s)) \<Longrightarrow> trim s = s"
proof -
  assume a: "s = [] \<or> (\<not> is_space (hd s) \<and> \<not> is_space (last s))"
  then have 1: "dropWhile is_space s = s" by (auto intro: dropWhile_id)
  from a have "rev s = [] \<or> \<not> is_space (hd (rev s))" by (auto simp: hd_rev)
  then have 2: "dropWhile is_space (rev s) = rev s" by (rule dropWhile_id)
  show ?thesis by (simp add: trim_def 1 2)
qed

lemma trim_idem [simp]: "trim (trim s) = trim s"
  using trim_props [of s] by (rule trim_id)

lemma trim_all_space: "list_all is_space s \<Longrightarrow> trim s = []"
proof -
  assume "list_all is_space s"
  then have d: "dropWhile is_space s = []" by (simp add: list_all_iff)
  show ?thesis unfolding trim_def d by simp
qed

lemma filter_dropWhile_not: "filter (\<lambda>c. \<not> p c) (dropWhile p s) = filter (\<lambda>c. \<not> p c) s"
  by (induction s) auto

lemma filter_trim: "filter (\<lambda>c. \<not> is_space c) (trim s) = filter (\<lambda>c. \<not> is_space c) s"
proof -
  have "filter (\<lambda>c. \<not> is_space c) (trim s) =
        rev (filter (\<lambda>c. \<not> is_space c) (dropWhile is_space (rev (dropWhile is_space s))))"
    by (simp add: trim_def rev_filter)
  also have "\<dots> = rev (filter (\<lambda>c. \<not> is_space c) (rev (dropWhile is_space s)))"
    by (simp only: filter_dropWhile_not)
  also have "\<dots> = filter (\<lambda>c. \<not> is_space c) s"
    by (simp add: rev_filter [symmetric] filter_dropWhile_not)
  finally show ?thesis .
qed

section \<open>The replacements over one class of characters\<close>

lemma first_match_Cls:
  "first_match (Cls p) [] = None"
  "first_match (Cls p) (c # s) = (if p c then Some ([], s) else None)"
  by (simp_all add: first_match_def)

lemma replace_all_Cls:
  "replace_all (Cls p) f s = concat (map (\<lambda>c. if p c then f [] else [c]) s)"
  by (induction s) (simp_all add: first_match_Cls)

lemma replace_all_Cls_same:
  "(\<And>c. p c \<Longrightarrow> c = k) \<Longrightarrow> replace_all (Cls p) (\<lambda>_. [k]) s = s"
  by (induction s) (auto simp: first_match_Cls)

lemma first_match_many1:
  "first_match (many1 p) [] = None"
  "first_match (many1 p) (c # s) = (if p c then Some ([], dropWhile p s) else None)"
  by (simp_all add: first_match_def many1_def Let_def dropWhile_eq_drop)

lemma length_dropWhile_less: "length (dropWhile p s) < Suc (length s)"
  by (simp add: length_dropWhile_le less_Suc_eq_le)

lemma replace_all_many1:
  "replace_all (many1 p) f [] = []"
  "replace_all (many1 p) f (c # s) =
     (if p c then f [] @ replace_all (many1 p) f (dropWhile p s)
      else c # replace_all (many1 p) f s)"
  by (simp_all add: first_match_many1 length_dropWhile_less)

declare replace_all.simps [simp del]

lemma filter_replace_all_many1:
  "list_all p rep \<Longrightarrow>
   filter (\<lambda>c. \<not> p c) (replace_all (many1 p) (\<lambda>_. rep) s) = filter (\<lambda>c. \<not> p c) s"
proof (induction s rule: length_induct)
  case (1 s)
  show ?case
  proof (cases s)
    case Nil
    then show ?thesis by (simp add: replace_all_many1)
  next
    case (Cons c t)
    have rep: "filter (\<lambda>c. \<not> p c) rep = []"
      using 1(2) by (induction rep) auto
    have "length (dropWhile p t) < length s"
      using Cons by (simp add: length_dropWhile_less)
    then have ih: "filter (\<lambda>c. \<not> p c) (replace_all (many1 p) (\<lambda>_. rep) (dropWhile p t)) =
        filter (\<lambda>c. \<not> p c) (dropWhile p t)"
      using 1 by blast
    have ih2: "filter (\<lambda>c. \<not> p c) (replace_all (many1 p) (\<lambda>_. rep) t) = filter (\<lambda>c. \<not> p c) t"
      using 1 Cons by simp
    show ?thesis
      using Cons rep ih ih2 by (simp add: replace_all_many1 filter_dropWhile_not)
  qed
qed

lemma replace_all_many1_Nil: "replace_all (many1 p) (\<lambda>_. []) s = filter (\<lambda>c. \<not> p c) s"
proof (induction s rule: length_induct)
  case (1 s)
  show ?case
  proof (cases s)
    case Nil
    then show ?thesis by (simp add: replace_all_many1)
  next
    case (Cons c t)
    have "length (dropWhile p t) < length s"
      using Cons by (simp add: length_dropWhile_less)
    then have ih: "replace_all (many1 p) (\<lambda>_. []) (dropWhile p t) =
        filter (\<lambda>c. \<not> p c) (dropWhile p t)"
      using 1 by blast
    have ih2: "replace_all (many1 p) (\<lambda>_. []) t = filter (\<lambda>c. \<not> p c) t"
      using 1 Cons by simp
    show ?thesis
      using Cons ih ih2 by (simp add: replace_all_many1 filter_dropWhile_not)
  qed
qed

lemma removeAllSpaces_filter: "removeAllSpaces s = filter (\<lambda>c. \<not> is_space c) s"
  by (simp add: removeAllSpaces_def replace_all_many1_Nil)

lemma normalizeString_eq:
  "normalizeString s = replace_all (many1 is_space) (\<lambda>_. '' '') (trim (toLowerCase s))"
  by (simp add: normalizeString_def replace_all_Cls_same)

lemma normalizeString_trim: "normalizeString (trim s) = normalizeString s"
  by (simp add: normalizeString_eq trim_toLowerCase [symmetric])

lemma normalizeString_Nil: "normalizeString [] = []"
  by (simp add: normalizeString_eq toLowerCase_def trim_def replace_all_many1)

section \<open>Normalising twice\<close>

lemma collapse_simps:
  "collapse [] = []"
  "collapse (c # s) = (if is_space c then CHR '' '' # collapse (dropWhile is_space s) else c # collapse s)"
  by (simp_all add: collapse_def replace_all_many1)

lemma is_space_space [simp]: "is_space (CHR '' '')"
  by (simp add: is_space_def)

lemma toLowerChar_space [simp]: "toLowerChar (CHR '' '') = CHR '' ''"
  by (simp add: toLowerChar_def)

lemma collapse_induct [case_names Nil space other]:
  assumes "P []"
    and "\<And>c s. is_space c \<Longrightarrow> P (dropWhile is_space s) \<Longrightarrow> P (c # s)"
    and "\<And>c s. \<not> is_space c \<Longrightarrow> P s \<Longrightarrow> P (c # s)"
  shows "P s"
proof (induction s rule: length_induct)
  case (1 s)
  show ?case
  proof (cases s)
    case Nil
    then show ?thesis using assms(1) by simp
  next
    case (Cons c t)
    have a: "P (dropWhile is_space t)"
      using 1 Cons by (simp add: length_dropWhile_less)
    have b: "P t" using 1 Cons by simp
    show ?thesis using Cons a b assms(2,3) by (cases "is_space c") auto
  qed
qed

lemma collapse_toLowerCase: "toLowerCase (collapse s) = collapse (toLowerCase s)"
proof (induction s rule: collapse_induct)
  case Nil
  then show ?case by (simp add: collapse_simps toLowerCase_def)
next
  case (space c s)
  have "toLowerCase (c # s) = toLowerChar c # toLowerCase s" by (simp add: toLowerCase_def)
  moreover have "toLowerCase (CHR '' '' # t) = CHR '' '' # toLowerCase t" for t
    by (simp add: toLowerCase_def)
  ultimately show ?case using space
    by (simp add: collapse_simps dropWhile_toLowerCase)
next
  case (other c s)
  have "toLowerCase (c # t) = toLowerChar c # toLowerCase t" for t
    by (simp add: toLowerCase_def)
  then show ?case using other by (simp add: collapse_simps)
qed

lemma collapse_head:
  "s = [] \<or> \<not> is_space (hd s) \<Longrightarrow> collapse s = [] \<or> \<not> is_space (hd (collapse s))"
  by (cases s) (auto simp: collapse_simps)

lemma collapse_idem: "collapse (collapse s) = collapse s"
proof (induction s rule: collapse_induct)
  case Nil
  then show ?case by (simp add: collapse_simps)
next
  case (space c s)
  have "dropWhile is_space (collapse (dropWhile is_space s)) = collapse (dropWhile is_space s)"
    by (rule dropWhile_id, rule collapse_head, rule hd_dropWhile_not)
  then show ?case using space by (simp add: collapse_simps)
next
  case (other c s)
  then show ?case by (simp add: collapse_simps)
qed

lemma last_dropWhile: "dropWhile p s \<noteq> [] \<Longrightarrow> last (dropWhile p s) = last s"
  by (metis last_appendR takeWhile_dropWhile_id)

lemma dropWhile_last_not_Nil: "s \<noteq> [] \<Longrightarrow> \<not> p (last s) \<Longrightarrow> dropWhile p s \<noteq> []"
  by (metis dropWhile_eq_Nil_conv last_in_set)

lemma collapse_last:
  "s \<noteq> [] \<Longrightarrow> \<not> is_space (last s) \<Longrightarrow> collapse s \<noteq> [] \<and> last (collapse s) = last s"
proof (induction s rule: collapse_induct)
  case Nil
  then show ?case by simp
next
  case (space c s)
  from space(1,4) have s: "s \<noteq> []" by (cases s) auto
  then have l: "last (c # s) = last s" by simp
  have nl: "\<not> is_space (last s)" using space(4) l by simp
  have d: "dropWhile is_space s \<noteq> []"
    using dropWhile_last_not_Nil [of s is_space] s nl by blast
  have "\<not> is_space (last (dropWhile is_space s))"
    using d space(4) l by (simp add: last_dropWhile)
  with space(2) d have "collapse (dropWhile is_space s) \<noteq> [] \<and>
      last (collapse (dropWhile is_space s)) = last (dropWhile is_space s)" by blast
  then show ?case using space(1) l d by (simp add: collapse_simps last_dropWhile)
next
  case (other c s)
  then show ?case by (cases "s = []") (simp_all add: collapse_simps)
qed

lemma collapse_hd:
  "s \<noteq> [] \<Longrightarrow> \<not> is_space (hd s) \<Longrightarrow> hd (collapse s) = hd s"
  by (cases s) (auto simp: collapse_simps)

lemma trim_collapse:
  assumes "s = [] \<or> (\<not> is_space (hd s) \<and> \<not> is_space (last s))"
  shows "trim (collapse s) = collapse s"
proof (cases "s = []")
  case True
  then show ?thesis by (simp add: collapse_simps trim_def)
next
  case False
  with assms have h: "\<not> is_space (hd s)" and l: "\<not> is_space (last s)" by auto
  from collapse_last [OF False l] collapse_hd [OF False h] h l
  have "\<not> is_space (hd (collapse s)) \<and> \<not> is_space (last (collapse s))" by simp
  then show ?thesis by (simp add: trim_id)
qed

lemma normalizeString_collapse: "normalizeString s = collapse (trim (toLowerCase s))"
  by (simp add: normalizeString_eq collapse_def)

lemma normalizeString_idem: "normalizeString (normalizeString s) = normalizeString s"
proof -
  let ?t = "trim (toLowerCase s)"
  have "toLowerCase (collapse ?t) = collapse ?t"
    by (simp add: collapse_toLowerCase trim_toLowerCase [symmetric])
  then have "normalizeString (normalizeString s) = collapse (trim (collapse ?t))"
    by (simp add: normalizeString_collapse)
  also have "\<dots> = collapse (collapse ?t)"
    using trim_collapse [OF trim_props [of "toLowerCase s"]] by simp
  also have "\<dots> = collapse ?t" by (rule collapse_idem)
  finally show ?thesis by (simp add: normalizeString_collapse)
qed

lemma filter_toLowerCase:
  "filter (\<lambda>c. \<not> is_space c) (toLowerCase s) = toLowerCase (filter (\<lambda>c. \<not> is_space c) s)"
  by (induction s) (simp_all add: toLowerCase_def)

lemma removeAllSpaces_normalizeString:
  "replace_all (many1 is_space) (\<lambda>_. []) (toLowerCase (normalizeString s)) =
   replace_all (many1 is_space) (\<lambda>_. []) (toLowerCase s)"
proof -
  have sp: "list_all is_space '' ''" by simp
  have "filter (\<lambda>c. \<not> is_space c) (normalizeString s) =
        filter (\<lambda>c. \<not> is_space c) (toLowerCase s)"
    by (simp add: normalizeString_eq filter_replace_all_many1 [OF sp] filter_trim)
  then show ?thesis
    by (simp add: replace_all_many1_Nil filter_toLowerCase)
qed

lemma normalizePhone_normalizeString: "normalizePhone (normalizeString s) = normalizePhone s"
  by (simp add: normalizePhone_def removeAllSpaces_normalizeString)

section \<open>The loop over the acceptable answers\<close>

lemma answersLoop_iff: "answersLoop cs user = list_ex (acceptsAnswer user) cs"
  by (induction cs) auto

lemma acceptsAnswer_refl: "acceptsAnswer s s"
  by (simp add: acceptsAnswer_def)

lemma checkIeltsAnswer_single:
  "CHR ''/'' \<notin> set c \<Longrightarrow>
   checkIeltsAnswer u c =
     (u \<noteq> [] \<and> c \<noteq> [] \<and> acceptsAnswer (normalizeString u) (normalizeString c))"
  by (simp add: checkIeltsAnswer_def split_on_none normalizeString_trim)

lemma checkIeltsAnswer_three:
  assumes "CHR ''/'' \<notin> set a" "CHR ''/'' \<notin> set b" "CHR ''/'' \<notin> set c"
  shows "checkIeltsAnswer x (a @ CHR ''/'' # b @ CHR ''/'' # c) =
     (x \<noteq> [] \<and> (acceptsAnswer (normalizeString x) (normalizeString a) \<or>
                 acceptsAnswer (normalizeString x) (normalizeString b) \<or>
                 acceptsAnswer (normalizeString x) (normalizeString c)))"
  using assms
  by (simp add: checkIeltsAnswer_def split_on_append split_on_none normalizeString_trim)

lemma acceptsAnswer_phone: "matchPhoneNumber user correct \<Longrightarrow> acceptsAnswer user correct"
  by (simp add: acceptsAnswer_def)

lemma not_space_slash: "\<not> is_space (CHR ''/'')"
  by (simp add: is_space_def)

section \<open>Empty input\<close>

text \<open>
  Claim C5. With an empty user answer, or an empty correct answer, \<open>checkAnswer\<close>
  returns false, whatever the other string and whatever the question type: both entry
  points test their two arguments first. The functions are total, so nothing is raised.
\<close>

theorem checkAnswer_empty_input:
  "checkAnswer [] t questionType = False \<and> checkAnswer t [] questionType = False"
  by (simp add: checkAnswer_def checkIeltsAnswer_def checkMultipleChoiceMultiple_def)

text \<open>
  Claim C9. The test of the two arguments rejects the empty string only. Two strings
  that are not empty and hold nothing but white space both normalise to the empty string,
  which the comparison of the normalised strings accepts: \<open>checkIeltsAnswer\<close> returns
  true.
\<close>

theorem checkIeltsAnswer_white_space_only:
  assumes "userAnswer \<noteq> []" "correctAnswers \<noteq> []"
    and "list_all is_space userAnswer" "list_all is_space correctAnswers"
  shows "checkIeltsAnswer userAnswer correctAnswers = True"
proof -
  have slash: "CHR ''/'' \<notin> set correctAnswers"
    using assms(4) not_space_slash by (auto simp: list_all_iff)
  have "list_all is_space (toLowerCase userAnswer)"
    using assms(3) by (simp add: toLowerCase_def list_all_iff)
  then have u: "normalizeString userAnswer = []"
    by (simp add: normalizeString_eq trim_all_space replace_all_many1)
  have "list_all is_space (toLowerCase correctAnswers)"
    using assms(4) by (simp add: toLowerCase_def list_all_iff)
  then have c: "normalizeString correctAnswers = []"
    by (simp add: normalizeString_eq trim_all_space replace_all_many1)
  show ?thesis
    using assms(1,2) slash by (simp add: checkIeltsAnswer_single u c acceptsAnswer_refl)
qed

theorem checkIeltsAnswer_white_space_only_witness:
  "checkIeltsAnswer '' '' ''  '' = True"
  using checkIeltsAnswer_white_space_only [of "'' ''" "''  ''"] by (simp add: is_space_def)

section \<open>An answer against itself, and the alternatives\<close>

text \<open>
  Claim C1, as the code has it. A string that is not empty and holds no \<open>/\<close> is
  accepted against itself: it is its own single acceptable answer, and the two normalised
  strings are equal. (The empty string is rejected by the test of the arguments, and a
  string with a \<open>/\<close> is compared, whole, with each of its pieces.)
\<close>

theorem checkAnswer_same_string:
  "s \<noteq> [] \<Longrightarrow> CHR ''/'' \<notin> set s \<Longrightarrow> checkAnswer s s None = True"
  by (simp add: checkAnswer_def checkIeltsAnswer_single acceptsAnswer_refl)

theorem checkAnswer_same_string_witness:
  "checkAnswer ''the beach'' ''the beach'' None = True"
  using checkAnswer_same_string [of "''the beach''"] by simp

text \<open>Claim C1 as stated fails at the empty string and at \<open>a/b\<close>.\<close>

theorem checkAnswer_same_string_counterexample:
  "checkAnswer [] [] None = False \<and> checkAnswer ''a/b'' ''a/b'' None = False"
  by code_simp

text \<open>
  Claim C4, as the code has it. For alternatives \<open>a\<close>, \<open>b\<close>, \<open>c\<close> that are not
  empty and hold no \<open>/\<close>, the answer \<open>x\<close> is accepted against \<open>a/b/c\<close> exactly
  when it is accepted against \<open>a\<close>, against \<open>b\<close> or against \<open>c\<close>.
\<close>

theorem checkAnswer_alternatives:
  assumes "a \<noteq> []" "b \<noteq> []" "c \<noteq> []"
    and "CHR ''/'' \<notin> set a" "CHR ''/'' \<notin> set b" "CHR ''/'' \<notin> set c"
  shows "checkAnswer x (a @ ''/'' @ b @ ''/'' @ c) None =
     (checkAnswer x a None \<or> checkAnswer x b None \<or> checkAnswer x c None)"
  using assms
  by (auto simp add: checkAnswer_def checkIeltsAnswer_three checkIeltsAnswer_single)

theorem checkAnswer_alternatives_witness:
  "checkAnswer ''cats'' (''dog'' @ ''/'' @ ''cat'' @ ''/'' @ ''bird'') None =
     (checkAnswer ''cats'' ''dog'' None \<or> checkAnswer ''cats'' ''cat'' None \<or>
      checkAnswer ''cats'' ''bird'' None)"
  using checkAnswer_alternatives [of "''dog''" "''cat''" "''bird''" "''cats''"] by simp

text \<open>
  Claim C4 as stated fails when an alternative is empty: against \<open>/b/c\<close> the answer
  \<open>s\<close> is compared with the empty alternative, which the plural rule accepts, while
  against the empty string alone it is rejected by the test of the arguments.
\<close>

theorem checkAnswer_alternatives_counterexample:
  "checkAnswer ''s'' ([] @ ''/'' @ ''b'' @ ''/'' @ ''c'') None = True \<and>
   checkAnswer ''s'' [] None = False \<and> checkAnswer ''s'' ''b'' None = False \<and>
   checkAnswer ''s'' ''c'' None = False"
  by code_simp

section \<open>The category matchers on the examples of the specification\<close>

text \<open>
  Claim C2. The phone matcher replaces every letter o by the digit 0 before it looks
  for the word \<open>double\<close>, which by then reads \<open>d0uble\<close>: the word is never expanded,
  and \<open>double 5 5\<close> is rejected against \<open>5 5 5\<close>, by the phone matcher and by
  \<open>checkAnswer\<close>. (The word \<open>triple\<close> holds no o and is expanded.)
\<close>

theorem phone_double_not_expanded:
  "normalizePhone ''double 5 5'' = ''d0uble55'' \<and> normalizePhone ''5 5 5'' = ''555'' \<and>
   matchPhoneNumber ''double 5 5'' ''5 5 5'' = False \<and>
   checkAnswer ''double 5 5'' ''5 5 5'' None = False"
  by code_simp

text \<open>
  On any input: once every letter o is a 0, the pattern of \<open>double\<close> matches nowhere,
  and its replacement leaves the string as it is.
\<close>

lemma double_no_match:
  "\<forall>x\<in>set s. toLowerChar x \<noteq> CHR ''o'' \<Longrightarrow> first_match doublePattern s = None"
  by (auto simp: doublePattern_def first_match_def liti_def chri_def split: list.splits)

lemma replace_all_no_match:
  "(\<And>t. set t \<subseteq> set s \<Longrightarrow> first_match r t = None) \<Longrightarrow> replace_all r f s = s"
proof (induction s)
  case Nil
  then show ?case by (simp add: replace_all.simps)
next
  case (Cons c s)
  have "replace_all r f s = s"
    using Cons by (meson dual_order.trans set_subset_Cons)
  moreover have "first_match r (c # s) = None" using Cons(2) by simp
  ultimately show ?case by (simp add: replace_all.simps)
qed

lemma no_o_after_replace:
  "\<forall>x\<in>set (replace_all (Cls (\<lambda>c. c \<in> set ''oO'')) (\<lambda>_. ''0'') s). toLowerChar x \<noteq> CHR ''o''"
  by (auto simp: replace_all_Cls toLowerChar_eq_o split: if_splits)

lemma double_never_expanded:
  "normalizePhone s =
     replace_all triplePattern (\<lambda>m. dollar m 1 @ dollar m 1 @ dollar m 1)
       (replace_all (Cls (\<lambda>c. c \<in> set ''oO'')) (\<lambda>_. ''0'')
         (replace_all (many1 is_space) (\<lambda>_. []) (toLowerCase s)))"
proof -
  let ?t = "replace_all (Cls (\<lambda>c. c \<in> set ''oO'')) (\<lambda>_. ''0'')
         (replace_all (many1 is_space) (\<lambda>_. []) (toLowerCase s))"
  have "first_match doublePattern t = None" if "set t \<subseteq> set ?t" for t
    using that no_o_after_replace [of "replace_all (many1 is_space) (\<lambda>_. []) (toLowerCase s)"]
    by (intro double_no_match) blast
  then have "replace_all doublePattern (\<lambda>m. dollar m 1 @ dollar m 1) ?t = ?t"
    by (rule replace_all_no_match)
  then show ?thesis by (simp add: normalizePhone_def)
qed

lemma phone_triple_expanded: "normalizePhone ''triple 5'' = ''555''"
  by code_simp

lemma phone_letter_o: "checkAnswer ''o123'' ''0123'' None = True"
  by code_simp

text \<open>
  Claim C3. The number matcher removes the white space of its operands before it looks
  them up, so \<open>one hundred\<close> reads \<open>onehundred\<close> and is no member of the row that
  holds \<open>one hundred\<close>: \<open>100\<close> is rejected against \<open>one hundred\<close>, by the number
  matcher and by \<open>checkAnswer\<close>.
\<close>

theorem number_one_hundred_rejected:
  "normalizeNum ''one hundred'' = ''onehundred'' \<and>
   matchNumber ''100'' ''one hundred'' = False \<and>
   checkAnswer ''100'' ''one hundred'' None = False"
  by code_simp

text \<open>
  On any input: a normalised operand holds no white space, so it is never the entry
  \<open>one hundred\<close> of the table.
\<close>

lemma not_space_filter: "\<not> list_ex is_space (filter (\<lambda>c. \<not> is_space c) s)"
  by (induction s) auto

lemma set_trim_subset: "set (trim s) \<subseteq> set s"
proof -
  have "set (dropWhile p t) \<subseteq> set t" for p and t :: string
    by (auto dest: set_dropWhileD)
  then show ?thesis unfolding trim_def
    by (metis (no_types, lifting) dual_order.trans set_rev)
qed

lemma normalizeNum_no_space: "\<not> list_ex is_space (normalizeNum s)"
proof -
  have "set (normalizeNum s) \<subseteq> set (filter (\<lambda>c. \<not> is_space c) (replace_all (chr (CHR '','')) (\<lambda>_. []) (toLowerCase s)))"
    unfolding normalizeNum_def replace_all_many1_Nil by (rule set_trim_subset)
  then show ?thesis by (auto simp: list_ex_iff)
qed

lemma one_hundred_unreachable: "normalizeNum s \<noteq> ''one hundred''"
proof
  assume "normalizeNum s = ''one hundred''"
  moreover have "list_ex is_space ''one hundred''" by (simp add: is_space_def)
  ultimately show False using normalizeNum_no_space [of s] by simp
qed

lemma number_words_examples:
  "checkAnswer ''12'' ''twelve'' None = True \<and> checkAnswer ''13'' ''thirty'' None = False"
  by code_simp

text \<open>
  The measurement matcher by itself is as the specification says: it returns true exactly
  when both normalised operands match the pattern, the numbers without their commas are
  equal, and one row of the table holds both units.
\<close>

lemma measureLoop_iff:
  "measureLoop rows userUnit correctUnit numsMatch =
     (numsMatch \<and> list_ex (\<lambda>variations. toLowerCase userUnit \<in> set variations \<and>
                              toLowerCase correctUnit \<in> set variations) rows)"
  by (induction rows) auto

lemma matchMeasurement_iff:
  "matchMeasurement userAnswer correctAnswer =
     (case (rx_match measurePattern (normalizeString userAnswer),
            rx_match measurePattern (normalizeString correctAnswer)) of
        (Some userMatch, Some correctMatch) \<Rightarrow>
          stripCommas (group_text userMatch 1) = stripCommas (group_text correctMatch 1) \<and>
          list_ex (\<lambda>variations.
              toLowerCase (group_text userMatch 2) \<in> set variations \<and>
              toLowerCase (group_text correctMatch 2) \<in> set variations)
            MEASUREMENT_VARIATIONS
      | _ \<Rightarrow> False)"
  by (simp add: matchMeasurement_def measureLoop_iff split: option.splits)

lemma measurement_examples:
  "checkAnswer ''5km'' ''5 kilometres'' None = True \<and> checkAnswer ''5km'' ''6km'' None = False"
  by code_simp

text \<open>
  Claim C8. \<open>5 km\<close> against \<open>5 miles\<close> is rejected by the measurement matcher, the
  units being of two rows, but both strings match the second date pattern (a day, white
  space, a word), and the date matcher returns true for any two strings of one pattern:
  \<open>checkAnswer\<close> accepts the pair.
\<close>

theorem measurement_miles_accepted_as_date:
  "matchMeasurement ''5 km'' ''5 miles'' = False \<and>
   matchDate ''5 km'' ''5 miles'' = True \<and>
   checkAnswer ''5 km'' ''5 miles'' None = True"
  by code_simp

section \<open>The date matcher\<close>

lemma dateLoop_iff:
  "dateLoop patterns user correct =
     list_ex (\<lambda>pattern. rx_match pattern user \<noteq> None \<and> rx_match pattern correct \<noteq> None)
       patterns"
  by (induction patterns) auto

text \<open>
  Claim C6. On two normalised strings (strings that \<open>normalizeString\<close> leaves as they
  are; by \<open>normalizeString_idem\<close> every result of \<open>normalizeString\<close> is one), the date
  matcher returns true exactly when one of the four date patterns matches both: true as
  soon as one pattern matches both, with no look at the groups, and false when no pattern
  matches both.
\<close>

theorem matchDate_same_pattern:
  assumes "normalizeString user = user" "normalizeString correct = correct"
  shows "matchDate user correct =
     list_ex (\<lambda>pattern. rx_match pattern user \<noteq> None \<and> rx_match pattern correct \<noteq> None)
       datePatterns"
  using assms by (simp add: matchDate_def dateLoop_iff)

text \<open>\<open>march 5\<close> against \<open>april 9\<close>: both match the first pattern.\<close>

theorem matchDate_same_pattern_witness: "matchDate ''march 5'' ''april 9'' = True"
proof -
  have n: "normalizeString ''march 5'' = ''march 5''" "normalizeString ''april 9'' = ''april 9''"
    by code_simp+
  have "list_ex (\<lambda>pattern. rx_match pattern ''march 5'' \<noteq> None \<and>
          rx_match pattern ''april 9'' \<noteq> None) datePatterns"
    by code_simp
  then show ?thesis using matchDate_same_pattern [OF n] by simp
qed

section \<open>The phone matcher on every pair\<close>

lemma replace_all_Cls_char:
  "replace_all (Cls p) (\<lambda>_. [k]) s = map (\<lambda>c. if p c then k else c) s"
  by (induction s) (simp_all add: replace_all_Cls)

text \<open>What the phone matcher compares is the phone key: the word \<open>double\<close> plays no part.\<close>

lemma normalizePhone_phoneKey: "normalizePhone s = phoneKey s"
  by (simp only: double_never_expanded phoneKey_def replace_all_many1_Nil replace_all_Cls_char)

text \<open>
  Claim C10, as the code has it. Two strings that are not empty, the correct answer
  holding no \<open>/\<close>, whose phone keys (lower case, no white space, the letter o as the
  digit 0, the triple notation expanded) are equal, are accepted by
  \<open>checkIeltsAnswer\<close>: the phone matcher is tried on every pair, whatever it holds.
  Nothing is said of the double notation.
\<close>

theorem checkIeltsAnswer_phone_equal:
  assumes "userAnswer \<noteq> []" "correctAnswers \<noteq> []" "CHR ''/'' \<notin> set correctAnswers"
    and "phoneKey userAnswer = phoneKey correctAnswers"
  shows "checkIeltsAnswer userAnswer correctAnswers = True"
proof -
  have "normalizePhone userAnswer = normalizePhone correctAnswers"
    using assms(4) by (simp only: normalizePhone_phoneKey)
  then have "matchPhoneNumber (normalizeString userAnswer) (normalizeString correctAnswers)"
    by (simp add: matchPhoneNumber_def normalizePhone_normalizeString)
  then show ?thesis
    using assms(1-3) by (simp add: checkIeltsAnswer_single acceptsAnswer_phone)
qed

text \<open>
  \<open>h0tel\<close> is accepted against \<open>hotel\<close>, and \<open>Triple 5 o\<close> against \<open>55 50\<close>.
\<close>

theorem checkIeltsAnswer_phone_equal_witness:
  "checkIeltsAnswer ''h0tel'' ''hotel'' = True \<and>
   checkIeltsAnswer ''Triple 5 o'' ''55 50'' = True"
proof -
  have "phoneKey ''h0tel'' = phoneKey ''hotel''"
    "phoneKey ''Triple 5 o'' = phoneKey ''55 50''"
    by code_simp+
  then show ?thesis
    using checkIeltsAnswer_phone_equal [of "''h0tel''" "''hotel''"]
      checkIeltsAnswer_phone_equal [of "''Triple 5 o''" "''55 50''"]
    by simp
qed

text \<open>
  Claim C10 as stated fails when the correct answer holds a \<open>/\<close>: the user answer is
  compared with each alternative, never with the whole string.
\<close>

theorem checkIeltsAnswer_phone_equal_counterexample:
  "phoneKey ''h0tel/x'' = phoneKey ''hotel/x'' \<and>
   normalizePhone ''h0tel/x'' = normalizePhone ''hotel/x'' \<and>
   checkIeltsAnswer ''h0tel/x'' ''hotel/x'' = False"
  by code_simp

text \<open>
  The double notation is never expanded (\<open>double_never_expanded\<close>): \<open>double 5\<close>
  is not accepted against \<open>55\<close>.
\<close>

lemma phone_double_pair_rejected: "checkIeltsAnswer ''double 5'' ''55'' = False"
  by code_simp

section \<open>The multiple-selection matcher as equality of sets\<close>

lemma new_Set_step_set:
  "set (foldl (\<lambda>acc x. if x \<in> set acc then acc else acc @ [x]) acc xs) = set acc \<union> set xs"
  by (induction xs arbitrary: acc) auto

lemma new_Set_step_distinct:
  "distinct acc \<Longrightarrow>
   distinct (foldl (\<lambda>acc x. if x \<in> set acc then acc else acc @ [x]) acc xs)"
  by (induction xs arbitrary: acc) auto

lemma set_new_Set: "set (new_Set xs) = set xs"
  by (simp add: new_Set_def new_Set_step_set)

lemma distinct_new_Set: "distinct (new_Set xs)"
  by (simp add: new_Set_def new_Set_step_distinct)

lemma set_options: "set (options answer) = option_set answer"
  by (simp add: options_def option_set_def set_new_Set)

lemma length_options: "length (options answer) = card (option_set answer)"
  using distinct_card [OF distinct_new_Set, of "filter (\<lambda>opt. opt \<noteq> []) (map normalizeString (split_on (CHR '','') answer))"]
  unfolding options_def option_set_def set_new_Set by simp

lemma checkMultipleChoiceMultiple_sets:
  assumes "userAnswer \<noteq> []" "correctAnswer \<noteq> []"
  shows "checkMultipleChoiceMultiple userAnswer correctAnswer =
     (card (option_set userAnswer) = card (option_set correctAnswer) \<and>
      option_set userAnswer \<subseteq> option_set correctAnswer \<and>
      option_set correctAnswer \<subseteq> option_set userAnswer)"
proof -
  have all: "list_all (\<lambda>opt. opt \<in> A) xs = (set xs \<subseteq> A)" for xs :: "string list" and A
    by (auto simp: list_all_iff)
  show ?thesis
    using assms
    by (simp add: checkMultipleChoiceMultiple_def Let_def all length_options set_options)
qed

lemma multiple_choice_examples:
  "checkMultipleChoiceMultiple ''B,A'' ''A,B'' = True"
  "checkMultipleChoiceMultiple ''A,A,B'' ''A,B'' = True"
  "checkMultipleChoiceMultiple ''A,B,C'' ''A,B'' = False"
  by code_simp+

text \<open>
  Claim C7, as the code has it. On two answers that are not empty, the matcher returns
  true exactly when the two sets of options have the same number of members and each is
  a subset of the other, that is, when they are equal: the order of the tokens and their
  repetitions do not count. \<open>B,A\<close> and \<open>A,A,B\<close> are accepted against \<open>A,B\<close>, and
  \<open>A,B,C\<close> is not.
\<close>

theorem checkMultipleChoiceMultiple_set_equality:
  assumes "userAnswer \<noteq> []" "correctAnswer \<noteq> []"
  shows "checkMultipleChoiceMultiple userAnswer correctAnswer =
     (card (option_set userAnswer) = card (option_set correctAnswer) \<and>
      option_set userAnswer \<subseteq> option_set correctAnswer \<and>
      option_set correctAnswer \<subseteq> option_set userAnswer) \<and>
    checkMultipleChoiceMultiple userAnswer correctAnswer =
     (option_set userAnswer = option_set correctAnswer) \<and>
    checkMultipleChoiceMultiple ''B,A'' ''A,B'' = True \<and>
    checkMultipleChoiceMultiple ''A,A,B'' ''A,B'' = True \<and>
    checkMultipleChoiceMultiple ''A,B,C'' ''A,B'' = False"
  using checkMultipleChoiceMultiple_sets [OF assms] multiple_choice_examples by auto

theorem checkMultipleChoiceMultiple_set_equality_witness:
  "checkMultipleChoiceMultiple ''a, b ,A'' ''B,a'' = True"
proof -
  have "option_set ''a, b ,A'' = option_set ''B,a''"
    by code_simp
  then show ?thesis
    using checkMultipleChoiceMultiple_set_equality [of "''a, b ,A''" "''B,a''"] by simp
qed

text \<open>
  Claim C7 as stated fails at an empty answer: the empty string against \<open>,\<close> is
  rejected by the test of the arguments, though both sets of options are empty.
\<close>

theorem checkMultipleChoiceMultiple_set_equality_counterexample:
  "checkMultipleChoiceMultiple [] '','' = False \<and>
   option_set [] = {} \<and> option_set '','' = {}"
  by code_simp

end
